theory Spec2Isabelle
  imports Main "HOL-Library.Sublist"
begin

section \<open>Python values\<close>

text \<open>
  The program (\<^verbatim>\<open>src/meteoblue/meteoblue.py\<close>) works on values that \<^verbatim>\<open>json.load\<close> and
  \<^verbatim>\<open>resp.json()\<close> return: \<^verbatim>\<open>None\<close>, booleans, integers, floats, strings, lists and
  dictionaries with string keys. A float is carried as its \<^verbatim>\<open>repr\<close> (the string that
  \<^verbatim>\<open>str\<close> and an f-string print for it); the program only formats and truth-tests
  floats, and multiplies one by 60. A dictionary is an association list read with
  \<open>map_of\<close>; Python's \<^verbatim>\<open>None\<close> is \<open>JNull\<close>. A string is the list of the bytes of
  its UTF-8 encoding: a byte below 128 is an ASCII character, and no byte of a longer
  sequence is below 128.
\<close>

datatype json =
    JNull
  | JBool bool
  | JInt int
  | JFloat string
  | JStr string
  | JArr "json list"
  | JObj "(string \<times> json) list"

datatype pyerr =
    ValueError string
  | AttributeError
  | TypeError
  | KeyError
  | IndexError
  | ClientError
  | JSONDecodeError

text \<open>
  Library functions whose result the program only passes on: \<^verbatim>\<open>str\<close> of a list or a
  dictionary, \<^verbatim>\<open>json.dumps\<close>, the product of a float and an integer, and
  \<^verbatim>\<open>str.lower\<close> on a string that has characters beyond ASCII (the Unicode case
  mapping).
\<close>

record pylib =
  container_str :: "json \<Rightarrow> string"
  json_dumps :: "json \<Rightarrow> string"
  float_times :: "string \<Rightarrow> int \<Rightarrow> string"
  unicode_lower :: "string \<Rightarrow> string"

definition digit_char :: "nat \<Rightarrow> char" where
  "digit_char d = ''0123456789'' ! d"

fun digits :: "nat \<Rightarrow> string" where
  "digits n = (if n < 10 then [digit_char n] else digits (n div 10) @ [digit_char (n mod 10)])"

declare digits.simps [simp del]

definition str_int :: "int \<Rightarrow> string" where
  "str_int i = (if i < 0 then CHR ''-'' # digits (nat (- i)) else digits (nat i))"

text \<open>\<^verbatim>\<open>str(v)\<close>, also what an f-string puts for \<^verbatim>\<open>{v}\<close>.\<close>

fun py_str :: "pylib \<Rightarrow> json \<Rightarrow> string" where
  "py_str L JNull = ''None''"
| "py_str L (JBool b) = (if b then ''True'' else ''False'')"
| "py_str L (JInt i) = str_int i"
| "py_str L (JFloat r) = r"
| "py_str L (JStr s) = s"
| "py_str L (JArr xs) = container_str L (JArr xs)"
| "py_str L (JObj kvs) = container_str L (JObj kvs)"

text \<open>Truth value of \<^verbatim>\<open>v\<close> in \<^verbatim>\<open>if v\<close> and \<^verbatim>\<open>if not v\<close>.\<close>

fun py_truthy :: "json \<Rightarrow> bool" where
  "py_truthy JNull = False"
| "py_truthy (JBool b) = b"
| "py_truthy (JInt i) = (i \<noteq> 0)"
| "py_truthy (JFloat r) = (r \<noteq> ''0.0'' \<and> r \<noteq> ''-0.0'')"
| "py_truthy (JStr s) = (s \<noteq> [])"
| "py_truthy (JArr xs) = (xs \<noteq> [])"
| "py_truthy (JObj kvs) = (kvs \<noteq> [])"

text \<open>\<^verbatim>\<open>d.get(k, default)\<close> on a dictionary.\<close>

definition dget :: "(string \<times> json) list \<Rightarrow> string \<Rightarrow> json \<Rightarrow> json" where
  "dget d k dflt = (case map_of d k of None \<Rightarrow> dflt | Some v \<Rightarrow> v)"

text \<open>\<^verbatim>\<open>v.get(k, default)\<close> on any value: only a dictionary has the method.\<close>

fun py_get :: "json \<Rightarrow> string \<Rightarrow> json \<Rightarrow> pyerr + json" where
  "py_get (JObj d) k dflt = Inr (dget d k dflt)"
| "py_get _ k dflt = Inl AttributeError"

text \<open>\<^verbatim>\<open>k in v\<close> for a string \<^verbatim>\<open>k\<close>: a key of a dictionary, an element of a list, a
  substring of a string; a type error on the rest.\<close>

fun py_contains :: "string \<Rightarrow> json \<Rightarrow> pyerr + bool" where
  "py_contains k (JObj d) = Inr (k \<in> set (map fst d))"
| "py_contains k (JArr xs) = Inr (JStr k \<in> set xs)"
| "py_contains k (JStr s) = Inr (sublist k s)"
| "py_contains k _ = Inl TypeError"

text \<open>\<^verbatim>\<open>len(v)\<close>.\<close>

fun py_len :: "json \<Rightarrow> pyerr + nat" where
  "py_len (JArr xs) = Inr (length xs)"
| "py_len (JStr s) = Inr (length s)"
| "py_len (JObj d) = Inr (length (remdups (map fst d)))"
| "py_len _ = Inl TypeError"

text \<open>\<^verbatim>\<open>v[i]\<close> for an index \<^verbatim>\<open>i \<ge> 0\<close>: no key of a parsed dictionary is an integer.\<close>

fun py_item :: "json \<Rightarrow> nat \<Rightarrow> pyerr + json" where
  "py_item (JArr xs) i = (if i < length xs then Inr (xs ! i) else Inl IndexError)"
| "py_item (JStr s) i = (if i < length s then Inr (JStr [s ! i]) else Inl IndexError)"
| "py_item (JObj d) i = Inl KeyError"
| "py_item _ i = Inl TypeError"

text \<open>The items a \<^verbatim>\<open>for\<close> loop over \<^verbatim>\<open>v\<close> visits.\<close>

fun py_iter :: "json \<Rightarrow> pyerr + json list" where
  "py_iter (JArr xs) = Inr xs"
| "py_iter (JStr s) = Inr (map (\<lambda>c. JStr [c]) s)"
| "py_iter (JObj d) = Inr (map JStr (remdups (map fst d)))"
| "py_iter _ = Inl TypeError"

section \<open>The publisher\<close>

text \<open>
  \<^verbatim>\<open>mqtt_client.publish(topic, payload, retain=...)\<close> is modelled by the message it
  sends; a publisher method returns the messages it published, in call order, and the
  exception that ended it, if any.
\<close>

record mqtt_msg =
  topic :: string
  payload :: string
  retain :: bool

type_synonym published = "mqtt_msg list \<times> pyerr option"

definition lower_char :: "char \<Rightarrow> char" where
  "lower_char c =
     (case map_of (zip ''ABCDEFGHIJKLMNOPQRSTUVWXYZ'' ''abcdefghijklmnopqrstuvwxyz'') c of
        None \<Rightarrow> c
      | Some l \<Rightarrow> l)"

definition is_ascii :: "string \<Rightarrow> bool" where
  "is_ascii s = list_all (\<lambda>c. (of_char c :: nat) < 128) s"

text \<open>\<^verbatim>\<open>name.lower()\<close>: on an ASCII string the capitals \<^verbatim>\<open>A\<close> to \<^verbatim>\<open>Z\<close> become small
  letters and nothing else changes; on any other string it is the library's mapping.\<close>

definition lower :: "pylib \<Rightarrow> string \<Rightarrow> string" where
  "lower L s = (if is_ascii s then map lower_char s else unicode_lower L s)"

text \<open>\<^verbatim>\<open>s.replace(" ", "_")\<close>: the byte of the space occurs in an encoded string only as
  a space.\<close>

definition replace_space :: "string \<Rightarrow> string" where
  "replace_space s = map (\<lambda>c. if c = CHR '' '' then CHR ''_'' else c) s"

definition entity_id_of :: "pylib \<Rightarrow> string \<Rightarrow> string" where
  "entity_id_of L name = replace_space (lower L name)"

definition device_info :: json where
  "device_info = JObj
     [(''identifiers'', JArr [JStr ''meteoblue_weather'']),
      (''name'', JStr ''Meteoblue Weather''),
      (''model'', JStr ''Weather Station''),
      (''manufacturer'', JStr ''Meteoblue'')]"

text \<open>An optional string argument is added to the discovery dictionary when it is truthy.\<close>

definition opt_field :: "string \<Rightarrow> string option \<Rightarrow> (string \<times> json) list" where
  "opt_field k v = (case v of None \<Rightarrow> [] | Some s \<Rightarrow> if s = [] then [] else [(k, JStr s)])"

definition discovery_config ::
  "pylib \<Rightarrow> string \<Rightarrow> string option \<Rightarrow> string option \<Rightarrow> string option \<Rightarrow> string option \<Rightarrow> (string \<times> json) list" where
  "discovery_config L name unit device_class state_class icon =
     (let entity_id = entity_id_of L name in
      [(''name'', JStr name),
       (''unique_id'', JStr (''meteoblue_'' @ entity_id)),
       (''state_topic'', JStr (''meteoblue/'' @ entity_id @ ''/state'')),
       (''device'', device_info)]
      @ opt_field ''unit_of_measurement'' unit
      @ opt_field ''device_class'' device_class
      @ opt_field ''state_class'' state_class
      @ opt_field ''icon'' icon)"

definition publish_discovery ::
  "pylib \<Rightarrow> string \<Rightarrow> string \<Rightarrow> string option \<Rightarrow> string option \<Rightarrow> string option \<Rightarrow> string option \<Rightarrow> mqtt_msg" where
  "publish_discovery L sensor_type name unit device_class state_class icon =
     (let entity_id = entity_id_of L name;
          topic = ''homeassistant/sensor/meteoblue/'' @ entity_id @ ''/config'';
          config = discovery_config L name unit device_class state_class icon
      in \<lparr>topic = topic, payload = json_dumps L (JObj config), retain = True\<rparr>)"

definition publish_state :: "pylib \<Rightarrow> string \<Rightarrow> json \<Rightarrow> mqtt_msg" where
  "publish_state L entity_id state =
     \<lparr>topic = ''meteoblue/'' @ entity_id @ ''/state'', payload = py_str L state, retain = False\<rparr>"






text \<open>\<^verbatim>\<open>v[k]\<close> for a string key.\<close>

fun py_key :: "json \<Rightarrow> string \<Rightarrow> pyerr + json" where
  "py_key (JObj d) k = (case map_of d k of None \<Rightarrow> Inl KeyError | Some v \<Rightarrow> Inr v)"
| "py_key _ k = Inl TypeError"

text \<open>Two statements in sequence: the second runs when the first did not raise.\<close>

definition then_pub :: "published \<Rightarrow> published \<Rightarrow> published" where
  "then_pub p q = (case snd p of Some e \<Rightarrow> p | None \<Rightarrow> (fst p @ fst q, snd q))"

text \<open>\<^verbatim>\<open>if key in current: self.publish_state(entity, current[key])\<close>\<close>

definition publish_if_in :: "pylib \<Rightarrow> json \<Rightarrow> string \<Rightarrow> string \<Rightarrow> published" where
  "publish_if_in L current key entity =
     (case py_contains key current of
        Inl e \<Rightarrow> ([], Some e)
      | Inr present \<Rightarrow>
          if present then
            (case py_key current key of
               Inl e \<Rightarrow> ([], Some e)
             | Inr v \<Rightarrow> ([publish_state L entity v], None))
          else ([], None))"

definition publish_current_weather :: "pylib \<Rightarrow> json \<Rightarrow> published" where
  "publish_current_weather L data =
     (case py_get data ''data_current'' (JObj []) of
        Inl e \<Rightarrow> ([], Some e)
      | Inr current \<Rightarrow>
          then_pub (publish_if_in L current ''temperature'' ''temperature'')
         (then_pub (publish_if_in L current ''windspeed'' ''wind_speed'')
         (then_pub (publish_if_in L current ''winddirection'' ''wind_direction'')
         (then_pub (publish_if_in L current ''relativehumidity'' ''humidity'')
         (then_pub (publish_if_in L current ''pictocode'' ''pictocode'')
                   (publish_if_in L current ''isdaylight'' ''is_daylight''))))))"

text \<open>
  \<^verbatim>\<open>if key in forecast and i < len(forecast[key]):
      self.publish_state(f"forecast_day_{i}" + sfx, forecast[key][i])\<close>
\<close>

definition forecast_field :: "pylib \<Rightarrow> json \<Rightarrow> string \<Rightarrow> string \<Rightarrow> nat \<Rightarrow> published" where
  "forecast_field L forecast key sfx i =
     (case py_contains key forecast of
        Inl e \<Rightarrow> ([], Some e)
      | Inr present \<Rightarrow>
          if present then
            (case py_key forecast key of
               Inl e \<Rightarrow> ([], Some e)
             | Inr v \<Rightarrow>
                 (case py_len v of
                    Inl e \<Rightarrow> ([], Some e)
                  | Inr n \<Rightarrow>
                      if i < n then
                        (case py_item v i of
                           Inl e \<Rightarrow> ([], Some e)
                         | Inr x \<Rightarrow> ([publish_state L (''forecast_day_'' @ str_int (int i) @ sfx) x], None))
                      else ([], None)))
          else ([], None))"

definition forecast_day :: "pylib \<Rightarrow> json \<Rightarrow> nat \<Rightarrow> published" where
  "forecast_day L forecast i =
     then_pub (forecast_field L forecast ''temperature_max'' ''_temp_max'' i)
    (then_pub (forecast_field L forecast ''temperature_min'' ''_temp_min'' i)
    (then_pub (forecast_field L forecast ''precipitation'' ''_precipitation'' i)
              (forecast_field L forecast ''pictocode'' ''_pictocode'' i)))"

text \<open>\<^verbatim>\<open>for i, time in enumerate(times)\<close>, from index \<open>i\<close> on.\<close>

fun forecast_loop :: "pylib \<Rightarrow> json \<Rightarrow> nat \<Rightarrow> json list \<Rightarrow> published" where
  "forecast_loop L forecast i [] = ([], None)"
| "forecast_loop L forecast i (t # ts) =
     then_pub (forecast_day L forecast i) (forecast_loop L forecast (Suc i) ts)"

definition publish_forecast :: "pylib \<Rightarrow> json \<Rightarrow> published" where
  "publish_forecast L data =
     (case py_get data ''data_day'' (JObj []) of
        Inl e \<Rightarrow> ([], Some e)
      | Inr forecast \<Rightarrow>
          if \<not> py_truthy forecast then ([], None)
          else
            (case py_get forecast ''time'' (JArr []) of
               Inl e \<Rightarrow> ([], Some e)
             | Inr tms \<Rightarrow>
                 (case py_iter tms of
                    Inl e \<Rightarrow> ([], Some e)
                  | Inr ts \<Rightarrow> forecast_loop L forecast 0 ts)))"

text \<open>
  \<^verbatim>\<open>if key in sunmoon and sunmoon[key]: self.publish_state(entity, sunmoon[key][0])\<close>
\<close>

definition sunmoon_field :: "pylib \<Rightarrow> json \<Rightarrow> string \<Rightarrow> string \<Rightarrow> published" where
  "sunmoon_field L sunmoon key entity =
     (case py_contains key sunmoon of
        Inl e \<Rightarrow> ([], Some e)
      | Inr present \<Rightarrow>
          if present then
            (case py_key sunmoon key of
               Inl e \<Rightarrow> ([], Some e)
             | Inr v \<Rightarrow>
                 if py_truthy v then
                   (case py_item v 0 of
                      Inl e \<Rightarrow> ([], Some e)
                    | Inr x \<Rightarrow> ([publish_state L entity x], None))
                 else ([], None))
          else ([], None))"

definition publish_sunmoon :: "pylib \<Rightarrow> json \<Rightarrow> published" where
  "publish_sunmoon L data =
     (case py_get data ''data_day'' (JObj []) of
        Inl e \<Rightarrow> ([], Some e)
      | Inr sunmoon \<Rightarrow>
          if \<not> py_truthy sunmoon then ([], None)
          else
            (case py_get sunmoon ''time'' JNull of
               Inl e \<Rightarrow> ([], Some e)
             | Inr tms \<Rightarrow>
                 if \<not> py_truthy tms then ([], None)
                 else
                   then_pub (sunmoon_field L sunmoon ''sunrise'' ''sunrise'')
                  (then_pub (sunmoon_field L sunmoon ''sunset'' ''sunset'')
                  (then_pub (sunmoon_field L sunmoon ''moonrise'' ''moonrise'')
                  (then_pub (sunmoon_field L sunmoon ''moonset'' ''moonset'')
                            (sunmoon_field L sunmoon ''moonphasename'' ''moon_phase''))))))"

section \<open>The network and the environment\<close>

text \<open>
  An HTTP GET is a request (URL and headers) answered by the network: the call raises
  (\<open>ConnectionFailed\<close>), or a response arrives with a status, a body text, and the
  value \<^verbatim>\<open>resp.json()\<close> gives (\<open>None\<close> when it raises). A function that performs
  requests returns them, in order, beside its result.
\<close>

record request =
  url :: string
  headers :: "(string \<times> string) list"

record response =
  status :: int
  body_text :: string
  body_json :: "json option"

datatype http_result = ConnectionFailed | Response response

type_synonym network = "request \<Rightarrow> http_result"

definition HASSIO_API :: string where
  "HASSIO_API = ''http://supervisor/core/api''"

definition SUPERVISOR_API :: string where
  "SUPERVISOR_API = ''http://supervisor''"

definition METEOBLUE_API :: string where
  "METEOBLUE_API = ''https://my.meteoblue.com/packages''"

definition bearer_headers :: "string \<Rightarrow> (string \<times> string) list" where
  "bearer_headers token =
     [(''Authorization'', ''Bearer '' @ token), (''Content-Type'', ''application/json'')]"

text \<open>The first error ends a sequence of steps.\<close>

definition and_then :: "pyerr + 'a \<Rightarrow> ('a \<Rightarrow> pyerr + 'b) \<Rightarrow> pyerr + 'b" where
  "and_then r f = (case r of Inl e \<Rightarrow> Inl e | Inr x \<Rightarrow> f x)"

text \<open>
  \<^verbatim>\<open>get_mqtt_config\<close>: the argument \<open>token\<close> is what
  \<^verbatim>\<open>os.environ.get("SUPERVISOR_TOKEN")\<close> returns.
\<close>

definition get_mqtt_config ::
  "string option \<Rightarrow> network \<Rightarrow> request list \<times> (pyerr + (string \<times> json) list)" where
  "get_mqtt_config token net =
     (case token of
        None \<Rightarrow> ([], Inl (ValueError ''SUPERVISOR_TOKEN not found''))
      | Some t \<Rightarrow>
          if t = [] then ([], Inl (ValueError ''SUPERVISOR_TOKEN not found''))
          else
            (let req = \<lparr>url = SUPERVISOR_API @ ''/services/mqtt'', headers = bearer_headers t\<rparr> in
             ([req],
              (case net req of
                 ConnectionFailed \<Rightarrow> Inl ClientError
               | Response resp \<Rightarrow>
                   if status resp \<noteq> 200
                   then Inl (ValueError (''Failed to get MQTT config: '' @ str_int (status resp)))
                   else
                     (case body_json resp of
                        None \<Rightarrow> Inl JSONDecodeError
                      | Some data \<Rightarrow>
                          and_then (py_get data ''data'' (JObj [])) (\<lambda>mqtt_data.
                          and_then (py_get mqtt_data ''host'' (JStr ''core-mosquitto'')) (\<lambda>host.
                          and_then (py_get mqtt_data ''port'' (JInt 1883)) (\<lambda>port.
                          and_then (py_get mqtt_data ''username'' JNull) (\<lambda>username.
                          and_then (py_get mqtt_data ''password'' JNull) (\<lambda>password.
                          Inr [(''host'', host), (''port'', port),
                               (''username'', username), (''password'', password)]))))))))))"

section \<open>The weather client\<close>

text \<open>The client holds the API key and the configuration dictionary; its HTTP session is
  the network the calls go through.\<close>

record client =
  api_key :: json
  config :: "(string \<times> json) list"

definition get_coordinates ::
  "client \<Rightarrow> string option \<Rightarrow> network \<Rightarrow> request list \<times> (pyerr + json \<times> json \<times> json)" where
  "get_coordinates c token net =
     (let lat = dget (config c) ''latitude'' JNull;
          lon = dget (config c) ''longitude'' JNull;
          elevation = dget (config c) ''elevation'' JNull
      in
      if lat = JNull \<or> lon = JNull then
        (case token of
           None \<Rightarrow> ([], Inl (ValueError ''Cannot get Home Assistant token''))
         | Some t \<Rightarrow>
             if t = [] then ([], Inl (ValueError ''Cannot get Home Assistant token''))
             else
               (let req = \<lparr>url = HASSIO_API @ ''/config'', headers = bearer_headers t\<rparr> in
                ([req],
                 (case net req of
                    ConnectionFailed \<Rightarrow> Inl ClientError
                  | Response resp \<Rightarrow>
                      if status resp \<noteq> 200
                      then Inl (ValueError (''Failed to get HA config: '' @ str_int (status resp)))
                      else
                        (case body_json resp of
                           None \<Rightarrow> Inl JSONDecodeError
                         | Some data \<Rightarrow>
                             and_then (py_get data ''latitude'' (JInt 0)) (\<lambda>lat.
                             and_then (py_get data ''longitude'' (JInt 0)) (\<lambda>lon.
                             if \<not> py_truthy elevation
                             then and_then (py_get data ''elevation'' JNull) (\<lambda>elevation.
                                  Inr (lat, lon, elevation))
                             else Inr (lat, lon, elevation))))))))
      else ([], Inr (lat, lon, elevation)))"

text \<open>\<^verbatim>\<open>sep.join(items)\<close> on a list of strings.\<close>

fun join :: "string \<Rightarrow> string list \<Rightarrow> string" where
  "join sep [] = []"
| "join sep [x] = x"
| "join sep (x # y # ys) = x @ sep @ join sep (y # ys)"

definition build_url :: "pylib \<Rightarrow> client \<Rightarrow> string list \<Rightarrow> json \<Rightarrow> json \<Rightarrow> json \<Rightarrow> pyerr + string" where
  "build_url L c packages lat lon elevation =
     (let package_str = join ''_'' packages;
          units = dget (config c) ''units'' (JObj [])
      in
      and_then (py_get units ''temperature'' (JStr ''C'')) (\<lambda>temp_unit.
      and_then (py_get units ''windspeed'' (JStr ''ms-1'')) (\<lambda>wind_unit.
      and_then (py_get units ''precipitation'' (JStr ''mm'')) (\<lambda>precip_unit.
      let forecast_days = dget (config c) ''forecast_days'' (JInt 7);
          params =
            [''lat='' @ py_str L lat,
             ''lon='' @ py_str L lon,
             ''apikey='' @ py_str L (api_key c),
             ''format=json'',
             ''temperature='' @ py_str L temp_unit,
             ''windspeed='' @ py_str L wind_unit,
             ''precipitationamount='' @ py_str L precip_unit,
             ''forecast_days='' @ py_str L forecast_days,
             ''tz=UTC'']
            @ (if elevation \<noteq> JNull then [''asl='' @ py_str L elevation] else [])
      in Inr (METEOBLUE_API @ ''/'' @ package_str @ ''?'' @ join ''&'' params)))))"



datatype event =
    HttpGet request
  | MqttPublish mqtt_msg
  | LogInfo string
  | LogError string "pyerr option"
  | Sleep json
  | MqttLogin json json
  | MqttConnect json json
  | MqttLoopStart
  | MqttLoopStop
  | MqttDisconnect
  | SessionOpen
  | SessionClose
  | Exit int
  | Uncaught pyerr




section \<open>The poll loop\<close>


text \<open>Two steps in sequence, on events.\<close>

definition then_do :: "event list \<times> pyerr option \<Rightarrow> event list \<times> pyerr option \<Rightarrow> event list \<times> pyerr option" where
  "then_do p q = (case snd p of Some e \<Rightarrow> p | None \<Rightarrow> (fst p @ fst q, snd q))"












section \<open>Reference values for the statements\<close>

text \<open>A library instance, a network and a platform to evaluate the model on. The case
  mapping of the instance covers the ASCII letters and the two-byte capitals from
  \<^verbatim>\<open>C3 80\<close> to \<^verbatim>\<open>C3 9E\<close> (the accented Latin capitals; \<^verbatim>\<open>C3 97\<close> is the
  multiplication sign).\<close>

fun latin_lower :: "string \<Rightarrow> string" where
  "latin_lower [] = []"
| "latin_lower [a] = [lower_char a]"
| "latin_lower (a # b # s) =
     (if a = CHR 0xC3 \<and> 128 \<le> (of_char b :: nat) \<and> (of_char b :: nat) \<le> 158 \<and> b \<noteq> CHR 0x97
      then a # char_of ((of_char b :: nat) + 32) # latin_lower s
      else lower_char a # latin_lower (b # s))"

definition example_lib :: pylib where
  "example_lib =
     \<lparr>container_str = (\<lambda>v. ''<container>''), json_dumps = (\<lambda>v. ''<json>''),
      float_times = (\<lambda>r n. r), unicode_lower = latin_lower\<rparr>"

definition example_net :: network where
  "example_net req =
     (if url req = ''http://supervisor/services/mqtt'' then
        Response \<lparr>status = 200, body_text = [], body_json = Some (JObj [(''data'', JObj [(''username'', JStr ''u'')])])\<rparr>
      else if url req = ''http://supervisor/core/api/config'' then
        Response \<lparr>status = 200, body_text = [],
          body_json = Some (JObj [(''latitude'', JFloat ''47.1''), (''elevation'', JInt 430)])\<rparr>
      else
        Response \<lparr>status = 500, body_text = ''unavailable'', body_json = None\<rparr>)"

text \<open>The two requests to the host platform, and what it is for a call to return success.\<close>

definition mqtt_request :: "string \<Rightarrow> request" where
  "mqtt_request t = \<lparr>url = SUPERVISOR_API @ ''/services/mqtt'', headers = bearer_headers t\<rparr>"

definition ha_config_request :: "string \<Rightarrow> request" where
  "ha_config_request t = \<lparr>url = HASSIO_API @ ''/config'', headers = bearer_headers t\<rparr>"

definition call_succeeds :: "network \<Rightarrow> request \<Rightarrow> bool" where
  "call_succeeds net req = (case net req of ConnectionFailed \<Rightarrow> False | Response resp \<Rightarrow> status resp = 200)"

text \<open>The credential is not set, or set to the empty string.\<close>

definition no_credential :: "string option \<Rightarrow> bool" where
  "no_credential token = (case token of None \<Rightarrow> True | Some t \<Rightarrow> t = [])"

text \<open>A successful answer of the messaging-service endpoint has the documented shape: an
  object whose member \<^verbatim>\<open>data\<close>, when present, is the object \<open>mqtt_data\<close>.\<close>

definition broker_response :: "network \<Rightarrow> string \<Rightarrow> (string \<times> json) list \<Rightarrow> bool" where
  "broker_response net t mqtt_data \<longleftrightarrow>
     (case net (mqtt_request t) of
        ConnectionFailed \<Rightarrow> True
      | Response resp \<Rightarrow>
          status resp = 200 \<longrightarrow>
            (case body_json resp of
               Some (JObj data) \<Rightarrow> dget data ''data'' (JObj []) = JObj mqtt_data
             | _ \<Rightarrow> False))"

text \<open>The topic of an entity's state messages.\<close>

definition state_topic :: "string \<Rightarrow> string" where
  "state_topic entity = ''meteoblue/'' @ entity @ ''/state''"

text \<open>The keys read from the current-conditions section, each with the entity it feeds,
  and the messages a section gives for one of them.\<close>

definition current_fields :: "(string \<times> string) list" where
  "current_fields =
     [(''temperature'', ''temperature''), (''windspeed'', ''wind_speed''),
      (''winddirection'', ''wind_direction''), (''relativehumidity'', ''humidity''),
      (''pictocode'', ''pictocode''), (''isdaylight'', ''is_daylight'')]"

definition field_state :: "pylib \<Rightarrow> (string \<times> json) list \<Rightarrow> string \<times> string \<Rightarrow> mqtt_msg list" where
  "field_state L section ke =
     (case map_of section (fst ke) of None \<Rightarrow> [] | Some v \<Rightarrow> [publish_state L (snd ke) v])"

text \<open>The keys read from the daily section for sun and moon, each with its entity.\<close>

definition sunmoon_fields :: "(string \<times> string) list" where
  "sunmoon_fields =
     [(''sunrise'', ''sunrise''), (''sunset'', ''sunset''), (''moonrise'', ''moonrise''),
      (''moonset'', ''moonset''), (''moonphasename'', ''moon_phase'')]"

text \<open>The five steps of \<open>publish_sunmoon\<close> after its guards.\<close>

definition sunmoon_steps :: "pylib \<Rightarrow> json \<Rightarrow> published" where
  "sunmoon_steps L sunmoon =
     then_pub (sunmoon_field L sunmoon ''sunrise'' ''sunrise'')
    (then_pub (sunmoon_field L sunmoon ''sunset'' ''sunset'')
    (then_pub (sunmoon_field L sunmoon ''moonrise'' ''moonrise'')
    (then_pub (sunmoon_field L sunmoon ''moonset'' ''moonset'')
              (sunmoon_field L sunmoon ''moonphasename'' ''moon_phase''))))"

text \<open>The messages of day \<open>i\<close> when the daily fields are arrays.\<close>

definition day_field_msgs :: "pylib \<Rightarrow> (string \<times> json) list \<Rightarrow> string \<Rightarrow> string \<Rightarrow> nat \<Rightarrow> mqtt_msg list" where
  "day_field_msgs L day key sfx i =
     (case map_of day key of
        Some (JArr xs) \<Rightarrow>
          if i < length xs then [publish_state L (''forecast_day_'' @ str_int (int i) @ sfx) (xs ! i)] else []
      | _ \<Rightarrow> [])"

definition day_msgs :: "pylib \<Rightarrow> (string \<times> json) list \<Rightarrow> nat \<Rightarrow> mqtt_msg list" where
  "day_msgs L day i =
     day_field_msgs L day ''temperature_max'' ''_temp_max'' i
     @ day_field_msgs L day ''temperature_min'' ''_temp_min'' i
     @ day_field_msgs L day ''precipitation'' ''_precipitation'' i
     @ day_field_msgs L day ''pictocode'' ''_pictocode'' i"

definition forecast_suffixes :: "string list" where
  "forecast_suffixes = [''_temp_max'', ''_temp_min'', ''_precipitation'', ''_pictocode'']"

definition array_or_absent :: "(string \<times> json) list \<Rightarrow> string \<Rightarrow> bool" where
  "array_or_absent day key =
     (case map_of day key of None \<Rightarrow> True | Some (JArr xs) \<Rightarrow> True | Some _ \<Rightarrow> False)"

definition daily_arrays :: "(string \<times> json) list \<Rightarrow> bool" where
  "daily_arrays day \<longleftrightarrow>
     array_or_absent day ''temperature_max'' \<and> array_or_absent day ''temperature_min''
     \<and> array_or_absent day ''precipitation'' \<and> array_or_absent day ''pictocode''"

text \<open>The messages among the events of a run, in order; what tells a discovery message
  from a state message.\<close>

fun mqtt_of :: "event \<Rightarrow> mqtt_msg list" where
  "mqtt_of (MqttPublish m) = [m]"
| "mqtt_of _ = []"

definition published_msgs :: "event list \<Rightarrow> mqtt_msg list" where
  "published_msgs evs = concat (map mqtt_of evs)"







text \<open>The arguments of the sleeps among the events of a run, in order.\<close>

fun sleep_of :: "event \<Rightarrow> json list" where
  "sleep_of (Sleep v) = [v]"
| "sleep_of _ = []"

definition sleeps :: "event list \<Rightarrow> json list" where
  "sleeps evs = concat (map sleep_of evs)"


definition example_client :: client where
  "example_client = \<lparr>api_key = JStr ''KEY'', config = []\<rparr>"


section \<open>Sequencing\<close>

lemma then_pub_None [simp]: "then_pub (xs, None) q = (xs @ fst q, snd q)"
  by (simp add: then_pub_def)

lemma then_pub_Some [simp]: "then_pub (xs, Some e) q = (xs, Some e)"
  by (simp add: then_pub_def)

lemma fst_then_pub_cases: "fst (then_pub p q) = fst p \<or> fst (then_pub p q) = fst p @ fst q"
  by (cases p) (auto simp: then_pub_def split: option.splits)

lemma then_pub_set: "set (fst (then_pub p q)) \<subseteq> set (fst p) \<union> set (fst q)"
  using fst_then_pub_cases [of p q] by auto


lemma then_pub_subseq:
  assumes "subseq (map f (fst p)) xs" and "subseq (map f (fst q)) ys"
  shows "subseq (map f (fst (then_pub p q))) (xs @ ys)"
proof -
  from fst_then_pub_cases [of p q] show ?thesis
  proof
    assume "fst (then_pub p q) = fst p"
    with assms(1) show ?thesis by (simp add: list_emb_append2 subseq_rev_drop_many)
  next
    assume "fst (then_pub p q) = fst p @ fst q"
    with assms show ?thesis by (simp add: list_emb_append_mono)
  qed
qed

lemma and_then_Inr [simp]: "and_then (Inr x) f = f x"
  by (simp add: and_then_def)

lemma and_then_Inl [simp]: "and_then (Inl e) f = Inl e"
  by (simp add: and_then_def)

lemma then_do_None [simp]: "then_do (xs, None) q = (xs @ fst q, snd q)"
  by (simp add: then_do_def)

lemma then_do_Some [simp]: "then_do (xs, Some e) q = (xs, Some e)"
  by (simp add: then_do_def)



lemma mem_keys_iff: "k \<in> fst ` set d \<longleftrightarrow> map_of d k \<noteq> None"
  by (simp add: map_of_eq_None_iff)

section \<open>Strings\<close>

lemma lower_char_space: "lower_char c = CHR '' '' \<longleftrightarrow> c = CHR '' ''"
  by (auto simp: lower_char_def split: option.splits if_splits)

lemma str_int_small:
  "str_int (int 0) = ''0''" "str_int (int 1) = ''1''" "str_int (int 2) = ''2''"
  "str_int 7 = ''7''" "str_int 500 = ''500''"
  by (simp_all add: str_int_def digits.simps digit_char_def)

lemma capitals_table:
  "list_all (\<lambda>n. lower_char (char_of n) = char_of (n + 32)) [65..<91::nat]"
  by code_simp

lemma lower_char_capital:
  assumes "65 \<le> (of_char c :: nat)" and "(of_char c :: nat) \<le> 90"
  shows "lower_char c = char_of ((of_char c :: nat) + 32)"
proof -
  have "(of_char c :: nat) \<in> {65..<91}" using assms by simp
  then have "(of_char c :: nat) \<in> set [65..<91]" by (simp only: set_upt)
  with capitals_table have "lower_char (char_of (of_char c :: nat)) = char_of ((of_char c :: nat) + 32)"
    unfolding list_all_iff by blast
  then show ?thesis by simp
qed

lemma capital_codes:
  "c \<in> set ''ABCDEFGHIJKLMNOPQRSTUVWXYZ'' \<Longrightarrow> 65 \<le> (of_char c :: nat) \<and> (of_char c :: nat) \<le> 90"
  by auto

lemma lower_char_other:
  assumes "\<not> (65 \<le> (of_char c :: nat) \<and> (of_char c :: nat) \<le> 90)"
  shows "lower_char c = c"
proof -
  from assms capital_codes have "c \<notin> set ''ABCDEFGHIJKLMNOPQRSTUVWXYZ''" by blast
  then have "map_of (zip ''ABCDEFGHIJKLMNOPQRSTUVWXYZ'' ''abcdefghijklmnopqrstuvwxyz'') c = None"
    by (simp add: map_of_eq_None_iff)
  then show ?thesis by (simp add: lower_char_def)
qed

lemma lower_char_code:
  "lower_char c
     = (if 65 \<le> (of_char c :: nat) \<and> (of_char c :: nat) \<le> 90 then char_of ((of_char c :: nat) + 32) else c)"
  using lower_char_capital [of c] lower_char_other [of c] by simp

lemma entity_id_ascii:
  assumes "\<forall>c \<in> set name. (of_char c :: nat) < 128"
  shows "entity_id_of L name
     = map (\<lambda>c. if c = CHR '' '' then CHR ''_''
                 else if 65 \<le> (of_char c :: nat) \<and> (of_char c :: nat) \<le> 90
                      then char_of ((of_char c :: nat) + 32) else c) name"
proof -
  have "is_ascii name" using assms by (simp add: is_ascii_def list_all_iff)
  then have "entity_id_of L name = map (\<lambda>c. if lower_char c = CHR '' '' then CHR ''_'' else lower_char c) name"
    by (simp add: entity_id_of_def lower_def replace_space_def)
  also have "\<dots> = map (\<lambda>c. if c = CHR '' '' then CHR ''_'' else lower_char c) name"
    by (simp add: lower_char_space)
  also have "\<dots> = map (\<lambda>c. if c = CHR '' '' then CHR ''_''
                 else if 65 \<le> (of_char c :: nat) \<and> (of_char c :: nat) \<le> 90
                      then char_of ((of_char c :: nat) + 32) else c) name"
    by (subst lower_char_code) (rule refl)
  finally show ?thesis .
qed

lemma entity_id_other:
  assumes "\<not> (\<forall>c \<in> set name. (of_char c :: nat) < 128)"
  shows "entity_id_of L name
     = map (\<lambda>c. if c = CHR '' '' then CHR ''_'' else c) (unicode_lower L name)"
proof -
  have "\<not> is_ascii name" using assms by (simp add: is_ascii_def list_all_iff)
  then show ?thesis by (simp add: entity_id_of_def lower_def replace_space_def)
qed

lemma entity_id_no_space: "CHR '' '' \<notin> set (entity_id_of L name)"
  by (auto simp: entity_id_of_def replace_space_def)

lemma suffix_append_short:
  assumes "length a \<le> length b"
  shows "suffix a (xs @ b) \<longleftrightarrow> suffix a b"
proof
  assume "suffix a (xs @ b)"
  then obtain zs where z: "xs @ b = zs @ a" by (auto simp: suffix_def)
  from assms z have "length xs \<le> length zs"
    by (metis add_le_cancel_right length_append add_le_imp_le_left add.commute)
  with z obtain ws where "zs = xs @ ws"
    by (metis append_eq_append_conv_if append_take_drop_id)
  with z have "b = ws @ a" by simp
  then show "suffix a b" by (simp add: suffix_def)
next
  assume "suffix a b"
  then show "suffix a (xs @ b)" by (rule suffix_appendI)
qed

lemma topic_publish_state: "topic (publish_state L e v) = ''meteoblue/'' @ e @ ''/state''"
  by (simp add: publish_state_def)



section \<open>Current conditions\<close>

lemma publish_if_in_obj:
  "publish_if_in L (JObj cur) key entity = (field_state L cur (key, entity), None)"
  by (auto simp: publish_if_in_def field_state_def mem_keys_iff split: option.splits)

lemma publish_current_weather_obj:
  assumes "dget d ''data_current'' (JObj []) = JObj cur"
  shows "publish_current_weather L (JObj d) = (concat (map (field_state L cur) current_fields), None)"
  using assms by (simp add: publish_current_weather_def publish_if_in_obj current_fields_def)



section \<open>Sun and moon\<close>

lemma sunmoon_field_cases:
  "fst (sunmoon_field L sm key entity) = []
   \<or> (\<exists>v x. py_key sm key = Inr v \<and> py_item v 0 = Inr x
        \<and> fst (sunmoon_field L sm key entity) = [publish_state L entity x])"
  by (auto simp: sunmoon_field_def split: sum.splits)

lemma sunmoon_field_set:
  "m \<in> set (fst (sunmoon_field L sm key entity)) \<Longrightarrow>
     \<exists>v x. py_key sm key = Inr v \<and> py_item v 0 = Inr x \<and> m = publish_state L entity x"
  using sunmoon_field_cases [of L sm key entity] by auto

lemma sunmoon_field_topics:
  "subseq (map topic (fst (sunmoon_field L sm key entity))) [state_topic entity]"
  using sunmoon_field_cases [of L sm key entity]
  by (auto simp: publish_state_def state_topic_def)


lemma sunmoon_steps_set:
  assumes "m \<in> set (fst (sunmoon_steps L sm))"
  shows "\<exists>ke \<in> set sunmoon_fields. \<exists>v x.
           py_key sm (fst ke) = Inr v \<and> py_item v 0 = Inr x \<and> m = publish_state L (snd ke) x"
proof -
  from assms have "m \<in> set (fst (sunmoon_field L sm ''sunrise'' ''sunrise''))
     \<or> m \<in> set (fst (sunmoon_field L sm ''sunset'' ''sunset''))
     \<or> m \<in> set (fst (sunmoon_field L sm ''moonrise'' ''moonrise''))
     \<or> m \<in> set (fst (sunmoon_field L sm ''moonset'' ''moonset''))
     \<or> m \<in> set (fst (sunmoon_field L sm ''moonphasename'' ''moon_phase''))"
    unfolding sunmoon_steps_def using then_pub_set by blast
  then show ?thesis
    unfolding sunmoon_fields_def by (auto dest!: sunmoon_field_set)
qed

lemma sunmoon_steps_topics:
  "subseq (map topic (fst (sunmoon_steps L sm))) (map (\<lambda>ke. state_topic (snd ke)) sunmoon_fields)"
proof -
  have "subseq (map topic (fst (sunmoon_steps L sm)))
     ([state_topic ''sunrise''] @ [state_topic ''sunset''] @ [state_topic ''moonrise'']
       @ [state_topic ''moonset''] @ [state_topic ''moon_phase''])"
    unfolding sunmoon_steps_def
    by (intro then_pub_subseq sunmoon_field_topics)
  then show ?thesis by (simp add: sunmoon_fields_def)
qed


lemma publish_sunmoon_cases:
  "fst (publish_sunmoon L data) = []
   \<or> (\<exists>sm. py_get data ''data_day'' (JObj []) = Inr sm \<and> publish_sunmoon L data = sunmoon_steps L sm)"
  by (auto simp: publish_sunmoon_def sunmoon_steps_def split: sum.splits)


section \<open>Forecast\<close>

lemma forecast_field_obj:
  assumes "array_or_absent day key"
  shows "forecast_field L (JObj day) key sfx i = (day_field_msgs L day key sfx i, None)"
  using assms
  by (auto simp: forecast_field_def day_field_msgs_def array_or_absent_def mem_keys_iff
      split: option.splits json.splits)

lemma forecast_day_obj:
  assumes "daily_arrays day"
  shows "forecast_day L (JObj day) i = (day_msgs L day i, None)"
  using assms by (simp add: forecast_day_def day_msgs_def daily_arrays_def forecast_field_obj)

lemma forecast_loop_obj:
  assumes "daily_arrays day"
  shows "forecast_loop L (JObj day) i ts = (concat (map (day_msgs L day) [i..<i + length ts]), None)"
proof (induction ts arbitrary: i)
  case Nil
  show ?case by simp
next
  case (Cons t ts)
  have "[i..<i + length (t # ts)] = i # [Suc i..<Suc i + length ts]"
    by (simp add: upt_rec)
  then show ?case
    using assms by (simp add: forecast_day_obj Cons.IH)
qed

lemma publish_forecast_obj:
  assumes "map_of d ''data_day'' = Some (JObj day)"
    and "map_of day ''time'' = Some (JArr ts)"
    and "daily_arrays day"
  shows "publish_forecast L (JObj d) = (concat (map (day_msgs L day) [0..<length ts]), None)"
proof -
  have "day \<noteq> []" using assms(2) by auto
  then show ?thesis
    using assms forecast_loop_obj [of day L 0 ts]
    by (simp add: publish_forecast_def dget_def)
qed

lemma day_field_msgs_cases:
  "day_field_msgs L day key sfx i = []
   \<or> (\<exists>xs. map_of day key = Some (JArr xs) \<and> i < length xs
        \<and> day_field_msgs L day key sfx i
            = [publish_state L (''forecast_day_'' @ str_int (int i) @ sfx) (xs ! i)])"
  by (auto simp: day_field_msgs_def split: option.splits json.splits)

lemma temp_max_filter_other:
  assumes "sfx \<in> {''_temp_min'', ''_precipitation'', ''_pictocode''}"
  shows "filter (\<lambda>m. suffix ''_temp_max/state'' (topic m)) (day_field_msgs L day key sfx i) = []"
proof -
  have "\<not> suffix ''_temp_max/state'' (''meteoblue/'' @ (''forecast_day_'' @ str_int (int i) @ sfx) @ ''/state'')"
  proof -
    have "''meteoblue/'' @ (''forecast_day_'' @ str_int (int i) @ sfx) @ ''/state''
       = (''meteoblue/forecast_day_'' @ str_int (int i)) @ (sfx @ ''/state'')" by simp
    moreover have "\<not> suffix ''_temp_max/state'' ((''meteoblue/forecast_day_'' @ str_int (int i)) @ (sfx @ ''/state''))"
      using assms by (subst suffix_append_short) (auto simp: suffix_to_prefix)
    ultimately show ?thesis by simp
  qed
  then show ?thesis
    using day_field_msgs_cases [of L day key sfx i] by (auto simp: topic_publish_state)
qed

lemma temp_max_filter_self:
  assumes "map_of day ''temperature_max'' = Some (JArr xs)" and "i < length xs"
  shows "filter (\<lambda>m. suffix ''_temp_max/state'' (topic m))
           (day_field_msgs L day ''temperature_max'' ''_temp_max'' i)
     = [publish_state L (''forecast_day_'' @ str_int (int i) @ ''_temp_max'') (xs ! i)]"
  using assms by (simp add: day_field_msgs_def topic_publish_state suffix_def)

lemma temp_max_filter_day:
  assumes "map_of day ''temperature_max'' = Some (JArr xs)" and "i < length xs"
  shows "filter (\<lambda>m. suffix ''_temp_max/state'' (topic m)) (day_msgs L day i)
     = [publish_state L (''forecast_day_'' @ str_int (int i) @ ''_temp_max'') (xs ! i)]"
  using assms by (simp add: day_msgs_def temp_max_filter_other temp_max_filter_self)

lemma day_msgs_topics:
  assumes "m \<in> set (day_msgs L day i)"
  shows "\<exists>sfx \<in> set forecast_suffixes. topic m = state_topic (''forecast_day_'' @ str_int (int i) @ sfx)"
proof -
  from assms obtain key sfx where s: "sfx \<in> set forecast_suffixes"
    and m: "m \<in> set (day_field_msgs L day key sfx i)"
    by (auto simp: day_msgs_def forecast_suffixes_def)
  from m day_field_msgs_cases [of L day key sfx i]
  have "topic m = state_topic (''forecast_day_'' @ str_int (int i) @ sfx)"
    by (auto simp: topic_publish_state state_topic_def)
  with s show ?thesis by blast
qed





section \<open>Coordinates and broker settings\<close>

lemma get_coordinates_configured:
  assumes "dget (config c) ''latitude'' JNull \<noteq> JNull" and "dget (config c) ''longitude'' JNull \<noteq> JNull"
  shows "get_coordinates c token net
     = ([], Inr (dget (config c) ''latitude'' JNull, dget (config c) ''longitude'' JNull,
                 dget (config c) ''elevation'' JNull))"
  using assms by (simp add: get_coordinates_def Let_def)

lemma get_coordinates_no_credential:
  assumes "dget (config c) ''latitude'' JNull = JNull \<or> dget (config c) ''longitude'' JNull = JNull"
    and "no_credential token"
  shows "get_coordinates c token net = ([], Inl (ValueError ''Cannot get Home Assistant token''))"
  using assms by (auto simp: get_coordinates_def Let_def no_credential_def split: option.splits)

lemma get_coordinates_call_fails:
  assumes "dget (config c) ''latitude'' JNull = JNull \<or> dget (config c) ''longitude'' JNull = JNull"
    and "t \<noteq> []" and "\<not> call_succeeds net (ha_config_request t)"
  shows "\<exists>e. get_coordinates c (Some t) net = ([ha_config_request t], Inl e)"
  using assms
  by (auto simp: get_coordinates_def Let_def call_succeeds_def ha_config_request_def
      split: http_result.splits)

lemma get_coordinates_from_platform:
  assumes "dget (config c) ''latitude'' JNull = JNull \<or> dget (config c) ''longitude'' JNull = JNull"
    and "t \<noteq> []" and "net (ha_config_request t) = Response resp" and "status resp = 200"
    and "body_json resp = Some (JObj data)"
    and "elevation = dget (config c) ''elevation'' JNull"
  shows "get_coordinates c (Some t) net
     = ([ha_config_request t],
        Inr (dget data ''latitude'' (JInt 0), dget data ''longitude'' (JInt 0),
             if py_truthy elevation then elevation else dget data ''elevation'' JNull))"
  using assms
  by (auto simp: get_coordinates_def Let_def ha_config_request_def)

text \<open>A configured elevation of 0 is not truthy: with the latitude or longitude missing,
  the platform's elevation replaces it.\<close>

lemma get_coordinates_zero_elevation:
  "get_coordinates \<lparr>api_key = JStr ''KEY'', config = [(''elevation'', JInt 0)]\<rparr> (Some ''token'') example_net
     = ([ha_config_request ''token''], Inr (JFloat ''47.1'', JInt 0, JInt 430))"
  by (simp add: get_coordinates_def dget_def ha_config_request_def example_net_def HASSIO_API_def)

lemma get_mqtt_config_no_credential:
  assumes "no_credential token"
  shows "get_mqtt_config token net = ([], Inl (ValueError ''SUPERVISOR_TOKEN not found''))"
  using assms by (auto simp: get_mqtt_config_def no_credential_def split: option.splits)

lemma get_mqtt_config_call_fails:
  assumes "t \<noteq> []" and "\<not> call_succeeds net (mqtt_request t)"
  shows "\<exists>e. get_mqtt_config (Some t) net = ([mqtt_request t], Inl e)"
  using assms
  by (auto simp: get_mqtt_config_def Let_def call_succeeds_def mqtt_request_def split: http_result.splits)

lemma get_mqtt_config_settings:
  assumes "t \<noteq> []" and "net (mqtt_request t) = Response resp" and "status resp = 200"
    and "body_json resp = Some (JObj data)" and "dget data ''data'' (JObj []) = JObj mqtt_data"
  shows "get_mqtt_config (Some t) net
     = ([mqtt_request t],
        Inr [(''host'', dget mqtt_data ''host'' (JStr ''core-mosquitto'')),
             (''port'', dget mqtt_data ''port'' (JInt 1883)),
             (''username'', dget mqtt_data ''username'' JNull),
             (''password'', dget mqtt_data ''password'' JNull)])"
  using assms by (simp add: get_mqtt_config_def Let_def mqtt_request_def)

section \<open>Events of a run\<close>

lemma published_msgs_append [simp]: "published_msgs (xs @ ys) = published_msgs xs @ published_msgs ys"
  by (simp add: published_msgs_def)

lemma published_msgs_Nil [simp]: "published_msgs [] = []"
  by (simp add: published_msgs_def)

lemma published_msgs_Cons [simp]: "published_msgs (e # evs) = mqtt_of e @ published_msgs evs"
  by (simp add: published_msgs_def)

lemma published_msgs_publish [simp]: "published_msgs (map MqttPublish ms) = ms"
  by (induction ms) simp_all

lemma published_msgs_gets [simp]: "published_msgs (map HttpGet reqs) = []"
  by (induction reqs) simp_all
























section \<open>The loop step\<close>









section \<open>Sleeps of a run\<close>

lemma sleeps_append [simp]: "sleeps (xs @ ys) = sleeps xs @ sleeps ys"
  by (simp add: sleeps_def)

lemma sleeps_Nil [simp]: "sleeps [] = []"
  by (simp add: sleeps_def)

lemma sleeps_Cons [simp]: "sleeps (e # evs) = sleep_of e @ sleeps evs"
  by (simp add: sleeps_def)

lemma sleeps_publish [simp]: "sleeps (map MqttPublish ms) = []"
  by (induction ms) simp_all

lemma sleeps_gets [simp]: "sleeps (map HttpGet reqs) = []"
  by (induction reqs) simp_all













section \<open>The claims\<close>

text \<open>
  C1, in the form the code satisfies. \<open>get_coordinates\<close> reads latitude, longitude and elevation from the
  configuration. When latitude and longitude are both set it performs no request and
  returns the three configured values (the elevation is \<open>JNull\<close> when not configured).
  When one of them is missing: without a credential (unset or empty) it fails before any
  request; with a credential it performs exactly one GET, to the platform's config
  endpoint with the bearer headers, fails when that call does not return status 200, and
  on an answer that is an object returns the platform's latitude and longitude (0 when
  absent), with the platform's elevation when none is configured and the configured
  elevation when it is truthy. (For a configured elevation that is not \<^verbatim>\<open>None\<close> and
  not truthy, see \<open>get_coordinates_zero_elevation\<close>.)
\<close>

theorem resolve_coordinates_contract:
  assumes "lat = dget (config c) ''latitude'' JNull"
    and "lon = dget (config c) ''longitude'' JNull"
    and "elevation = dget (config c) ''elevation'' JNull"
  shows "(lat \<noteq> JNull \<and> lon \<noteq> JNull \<longrightarrow>
            get_coordinates c token net = ([], Inr (lat, lon, elevation)))
    \<and> ((lat = JNull \<or> lon = JNull) \<and> no_credential token \<longrightarrow>
            fst (get_coordinates c token net) = [] \<and> (\<exists>e. snd (get_coordinates c token net) = Inl e))
    \<and> ((lat = JNull \<or> lon = JNull) \<and> token = Some t \<and> t \<noteq> [] \<longrightarrow>
            fst (get_coordinates c token net) = [ha_config_request t]
          \<and> (\<not> call_succeeds net (ha_config_request t) \<longrightarrow> (\<exists>e. snd (get_coordinates c token net) = Inl e))
          \<and> (\<forall>resp data. net (ha_config_request t) = Response resp \<and> status resp = 200
                \<and> body_json resp = Some (JObj data) \<and> (elevation = JNull \<or> py_truthy elevation) \<longrightarrow>
                snd (get_coordinates c token net)
                  = Inr (dget data ''latitude'' (JInt 0), dget data ''longitude'' (JInt 0),
                         if elevation = JNull then dget data ''elevation'' JNull else elevation)))"
proof (intro conjI impI allI)
  assume "lat \<noteq> JNull \<and> lon \<noteq> JNull"
  then show "get_coordinates c token net = ([], Inr (lat, lon, elevation))"
    using assms get_coordinates_configured [of c token net] by simp
next
  assume a: "(lat = JNull \<or> lon = JNull) \<and> no_credential token"
  then have "get_coordinates c token net = ([], Inl (ValueError ''Cannot get Home Assistant token''))"
    using assms get_coordinates_no_credential [of c token net] by simp
  then show "fst (get_coordinates c token net) = []" "\<exists>e. snd (get_coordinates c token net) = Inl e"
    by simp_all
next
  assume a: "(lat = JNull \<or> lon = JNull) \<and> token = Some t \<and> t \<noteq> []"
  then have l: "dget (config c) ''latitude'' JNull = JNull \<or> dget (config c) ''longitude'' JNull = JNull"
    and t: "token = Some t" "t \<noteq> []"
    using assms by simp_all
  show one: "fst (get_coordinates c token net) = [ha_config_request t]"
    using l t by (auto simp: get_coordinates_def Let_def ha_config_request_def)
  {
    assume "\<not> call_succeeds net (ha_config_request t)"
    from get_coordinates_call_fails [OF l t(2) this]
    show "\<exists>e. snd (get_coordinates c token net) = Inl e"
      using t by auto
  }
  {
    fix resp data
    assume r: "net (ha_config_request t) = Response resp \<and> status resp = 200
                \<and> body_json resp = Some (JObj data) \<and> (elevation = JNull \<or> py_truthy elevation)"
    then have e: "(if py_truthy elevation then elevation else dget data ''elevation'' JNull)
        = (if elevation = JNull then dget data ''elevation'' JNull else elevation)"
      by auto
    from r get_coordinates_from_platform [OF l t(2), of net resp data elevation] assms(3)
    show "snd (get_coordinates c token net)
                  = Inr (dget data ''latitude'' (JInt 0), dget data ''longitude'' (JInt 0),
                         if elevation = JNull then dget data ''elevation'' JNull else elevation)"
      using t e by simp
  }
qed

theorem resolve_coordinates_contract_witness:
  "get_coordinates \<lparr>api_key = JStr ''KEY'',
        config = [(''latitude'', JFloat ''47.1''), (''longitude'', JFloat ''8.3'')]\<rparr> None example_net
     = ([], Inr (JFloat ''47.1'', JFloat ''8.3'', JNull))
   \<and> fst (get_coordinates example_client None example_net) = []
   \<and> get_coordinates example_client (Some ''token'') example_net
     = ([ha_config_request ''token''], Inr (JFloat ''47.1'', JInt 0, JInt 430))"
proof -
  have r: "example_net (ha_config_request ''token'')
     = Response \<lparr>status = 200, body_text = [],
          body_json = Some (JObj [(''latitude'', JFloat ''47.1''), (''elevation'', JInt 430)])\<rparr>"
    by (simp add: example_net_def ha_config_request_def HASSIO_API_def)
  have 1: "get_coordinates \<lparr>api_key = JStr ''KEY'',
        config = [(''latitude'', JFloat ''47.1''), (''longitude'', JFloat ''8.3'')]\<rparr> None example_net
     = ([], Inr (JFloat ''47.1'', JFloat ''8.3'', JNull))"
    using resolve_coordinates_contract [OF refl refl refl,
        where c = "\<lparr>api_key = JStr ''KEY'',
          config = [(''latitude'', JFloat ''47.1''), (''longitude'', JFloat ''8.3'')]\<rparr>"
        and token = None and net = example_net]
    by (simp add: dget_def)
  have 2: "fst (get_coordinates example_client None example_net) = []"
    using resolve_coordinates_contract [OF refl refl refl,
        where c = example_client and token = None and net = example_net]
    by (simp add: dget_def example_client_def no_credential_def)
  have 3: "fst (get_coordinates example_client (Some ''token'') example_net) = [ha_config_request ''token'']
     \<and> snd (get_coordinates example_client (Some ''token'') example_net)
         = Inr (JFloat ''47.1'', JInt 0, JInt 430)"
    using resolve_coordinates_contract [OF refl refl refl,
        where c = example_client and token = "Some ''token''" and net = example_net and t = "''token''"] r
    by (simp add: dget_def example_client_def)
  from 1 2 3 show ?thesis
    by (simp add: prod_eq_iff)
qed

text \<open>
  C1 as stated asks for exactly one GET whenever latitude or longitude is missing: with no
  credential in the environment the function performs none.
\<close>

theorem resolve_coordinates_no_get_counterexample:
  "dget (config example_client) ''latitude'' JNull = JNull
   \<and> length (fst (get_coordinates example_client None example_net)) \<noteq> 1"
  by (simp add: get_coordinates_def dget_def example_client_def)

text \<open>
  C2. \<open>build_url\<close> depends on its arguments, the client's API key and the configuration
  only (it takes no network and no environment), so equal inputs give equal URLs. With
  the configured units an object (or absent), the URL is the provider base, the package
  names joined with an underscore, and the parameters \<^verbatim>\<open>lat\<close>, \<^verbatim>\<open>lon\<close>, \<^verbatim>\<open>apikey\<close>,
  \<^verbatim>\<open>format=json\<close>, \<^verbatim>\<open>temperature\<close>, \<^verbatim>\<open>windspeed\<close>, \<^verbatim>\<open>precipitationamount\<close>,
  \<^verbatim>\<open>forecast_days\<close>, \<^verbatim>\<open>tz=UTC\<close> in this order, followed by \<^verbatim>\<open>asl\<close> exactly when the
  elevation is not \<^verbatim>\<open>None\<close>; the units default to \<^verbatim>\<open>C\<close>, \<^verbatim>\<open>ms-1\<close>, \<^verbatim>\<open>mm\<close> and the days
  to 7. For the packages \<^verbatim>\<open>["current"]\<close>, latitude 47.1, longitude 8.3 and default units
  the URL ends with \<^verbatim>\<open>precipitationamount=mm&forecast_days=7&tz=UTC\<close> when no elevation is
  given, and the elevation 500 appends \<^verbatim>\<open>&asl=500\<close>.
\<close>

theorem build_url_params:
  "(dget (config c) ''units'' (JObj []) = JObj units \<longrightarrow>
      build_url L c packages lat lon elevation = Inr
        (''https://my.meteoblue.com/packages/'' @ join ''_'' packages
         @ ''?lat='' @ py_str L lat
         @ ''&lon='' @ py_str L lon
         @ ''&apikey='' @ py_str L (api_key c)
         @ ''&format=json''
         @ ''&temperature='' @ py_str L (dget units ''temperature'' (JStr ''C''))
         @ ''&windspeed='' @ py_str L (dget units ''windspeed'' (JStr ''ms-1''))
         @ ''&precipitationamount='' @ py_str L (dget units ''precipitation'' (JStr ''mm''))
         @ ''&forecast_days='' @ py_str L (dget (config c) ''forecast_days'' (JInt 7))
         @ ''&tz=UTC''
         @ (if elevation = JNull then [] else ''&asl='' @ py_str L elevation)))
   \<and> (map_of (config c) ''units'' = None \<and> map_of (config c) ''forecast_days'' = None \<longrightarrow>
        build_url L c [''current''] (JFloat ''47.1'') (JFloat ''8.3'') JNull = Inr
          (''https://my.meteoblue.com/packages/current?lat=47.1&lon=8.3&apikey='' @ py_str L (api_key c)
           @ ''&format=json&temperature=C&windspeed=ms-1&precipitationamount=mm&forecast_days=7&tz=UTC'')
      \<and> build_url L c [''current''] (JFloat ''47.1'') (JFloat ''8.3'') (JInt 500) = Inr
          (''https://my.meteoblue.com/packages/current?lat=47.1&lon=8.3&apikey='' @ py_str L (api_key c)
           @ ''&format=json&temperature=C&windspeed=ms-1&precipitationamount=mm&forecast_days=7&tz=UTC''
           @ ''&asl=500''))"
proof -
  have general: "build_url L c packages lat lon elevation = Inr
        (''https://my.meteoblue.com/packages/'' @ join ''_'' packages
         @ ''?lat='' @ py_str L lat
         @ ''&lon='' @ py_str L lon
         @ ''&apikey='' @ py_str L (api_key c)
         @ ''&format=json''
         @ ''&temperature='' @ py_str L (dget units ''temperature'' (JStr ''C''))
         @ ''&windspeed='' @ py_str L (dget units ''windspeed'' (JStr ''ms-1''))
         @ ''&precipitationamount='' @ py_str L (dget units ''precipitation'' (JStr ''mm''))
         @ ''&forecast_days='' @ py_str L (dget (config c) ''forecast_days'' (JInt 7))
         @ ''&tz=UTC''
         @ (if elevation = JNull then [] else ''&asl='' @ py_str L elevation))"
    if "dget (config c) ''units'' (JObj []) = JObj units" for units packages lat lon elevation
    using that by (simp add: build_url_def METEOBLUE_API_def Let_def)
  have dflt: "dget (config c) ''units'' (JObj []) = JObj []" "dget (config c) ''forecast_days'' (JInt 7) = JInt 7"
    if "map_of (config c) ''units'' = None" "map_of (config c) ''forecast_days'' = None"
    using that by (simp_all add: dget_def)
  show ?thesis
    using general dflt str_int_small by (simp add: dget_def)
qed

theorem build_url_params_witness:
  "build_url example_lib \<lparr>api_key = JStr ''KEY'', config = [(''units'', JObj [(''windspeed'', JStr ''kmh'')])]\<rparr>
       [''current'', ''basic-day''] (JFloat ''47.1'') (JInt 8) (JInt 0)
     = Inr ''https://my.meteoblue.com/packages/current_basic-day?lat=47.1&lon=8&apikey=KEY&format=json&temperature=C&windspeed=kmh&precipitationamount=mm&forecast_days=7&tz=UTC&asl=0''
   \<and> build_url example_lib \<lparr>api_key = JStr ''KEY'', config = []\<rparr> [''current''] (JFloat ''47.1'') (JFloat ''8.3'') JNull
     = Inr ''https://my.meteoblue.com/packages/current?lat=47.1&lon=8.3&apikey=KEY&format=json&temperature=C&windspeed=ms-1&precipitationamount=mm&forecast_days=7&tz=UTC''
   \<and> build_url example_lib \<lparr>api_key = JStr ''KEY'', config = []\<rparr> [''current''] (JFloat ''47.1'') (JFloat ''8.3'') (JInt 500)
     = Inr ''https://my.meteoblue.com/packages/current?lat=47.1&lon=8.3&apikey=KEY&format=json&temperature=C&windspeed=ms-1&precipitationamount=mm&forecast_days=7&tz=UTC&asl=500''
   \<and> (case build_url example_lib \<lparr>api_key = JStr ''KEY'', config = []\<rparr> [''current'']
              (JFloat ''47.1'') (JFloat ''8.3'') JNull of
          Inl e \<Rightarrow> False
        | Inr u \<Rightarrow> suffix ''precipitationamount=mm&forecast_days=7&tz=UTC'' u \<and> \<not> sublist ''asl='' u)"
  using build_url_params [of "\<lparr>api_key = JStr ''KEY'', config = [(''units'', JObj [(''windspeed'', JStr ''kmh'')])]\<rparr>"
      "[(''windspeed'', JStr ''kmh'')]" example_lib "[''current'', ''basic-day'']" "JFloat ''47.1''" "JInt 8" "JInt 0"]
    build_url_params [of "\<lparr>api_key = JStr ''KEY'', config = []\<rparr>" "[]" example_lib]
  by (simp add: dget_def str_int_def digits.simps digit_char_def suffix_to_prefix sublist_Cons_right)



text \<open>
  C4. For a snapshot whose daily section has a \<^verbatim>\<open>time\<close> array of 3 elements and a
  \<^verbatim>\<open>temperature_max\<close> array of 3 elements (the other daily fields being arrays or
  absent), \<open>publish_forecast\<close> raises nothing, its messages on a topic ending in
  \<^verbatim>\<open>_temp_max/state\<close> are exactly the three for \<^verbatim>\<open>forecast_day_0_temp_max\<close>,
  \<^verbatim>\<open>forecast_day_1_temp_max\<close> and \<^verbatim>\<open>forecast_day_2_temp_max\<close>, each with the
  element of that index, and every message it publishes is for a day index below 3. The
  function does not read the configuration, so \<^verbatim>\<open>forecast_days\<close> has no effect.
\<close>

theorem forecast_three_days:
  assumes "map_of d ''data_day'' = Some (JObj day)"
    and "map_of day ''time'' = Some (JArr ts)" and "length ts = 3"
    and "map_of day ''temperature_max'' = Some (JArr tmax)" and "length tmax = 3"
    and "array_or_absent day ''temperature_min''"
    and "array_or_absent day ''precipitation''"
    and "array_or_absent day ''pictocode''"
  shows "snd (publish_forecast L (JObj d)) = None
    \<and> filter (\<lambda>m. suffix ''_temp_max/state'' (topic m)) (fst (publish_forecast L (JObj d)))
        = [publish_state L ''forecast_day_0_temp_max'' (tmax ! 0),
           publish_state L ''forecast_day_1_temp_max'' (tmax ! 1),
           publish_state L ''forecast_day_2_temp_max'' (tmax ! 2)]
    \<and> (\<forall>m \<in> set (fst (publish_forecast L (JObj d))).
          \<exists>i < 3. \<exists>sfx \<in> set forecast_suffixes.
            topic m = state_topic (''forecast_day_'' @ str_int (int i) @ sfx))"
proof -
  have wf: "daily_arrays day"
    using assms by (simp add: daily_arrays_def array_or_absent_def)
  have three: "[0..<3] = [0, 1, 2]"
    by (simp add: upt_rec)
  have out: "publish_forecast L (JObj d) = (day_msgs L day 0 @ day_msgs L day 1 @ day_msgs L day 2, None)"
    using publish_forecast_obj [OF assms(1) assms(2) wf, of L] assms(3) three by simp
  have f: "filter (\<lambda>m. suffix ''_temp_max/state'' (topic m)) (fst (publish_forecast L (JObj d)))
        = [publish_state L ''forecast_day_0_temp_max'' (tmax ! 0),
           publish_state L ''forecast_day_1_temp_max'' (tmax ! 1),
           publish_state L ''forecast_day_2_temp_max'' (tmax ! 2)]"
    using temp_max_filter_day [OF assms(4), of 0 L] temp_max_filter_day [OF assms(4), of 1 L]
      temp_max_filter_day [OF assms(4), of 2 L] assms(5) str_int_small(1-3)
    by (simp add: out)
  have t: "\<forall>m \<in> set (fst (publish_forecast L (JObj d))).
          \<exists>i < 3. \<exists>sfx \<in> set forecast_suffixes.
            topic m = state_topic (''forecast_day_'' @ str_int (int i) @ sfx)"
  proof
    fix m assume "m \<in> set (fst (publish_forecast L (JObj d)))"
    then consider "m \<in> set (day_msgs L day 0)" | "m \<in> set (day_msgs L day 1)" | "m \<in> set (day_msgs L day 2)"
      by (auto simp: out)
    then show "\<exists>i < 3. \<exists>sfx \<in> set forecast_suffixes.
        topic m = state_topic (''forecast_day_'' @ str_int (int i) @ sfx)"
    proof cases
      case 1 from day_msgs_topics [OF 1] show ?thesis by (intro exI [of _ 0]) simp
    next
      case 2 from day_msgs_topics [OF 2] show ?thesis by (intro exI [of _ 1]) simp
    next
      case 3 from day_msgs_topics [OF 3] show ?thesis by (intro exI [of _ 2]) simp
    qed
  qed
  from out f t show ?thesis by simp
qed

theorem forecast_three_days_witness:
  "filter (\<lambda>m. suffix ''_temp_max/state'' (topic m))
     (fst (publish_forecast example_lib
        (JObj [(''data_day'', JObj [(''time'', JArr [JStr ''a'', JStr ''b'', JStr ''c'']),
                                    (''temperature_max'', JArr [JInt 10, JFloat ''11.5'', JInt 12]),
                                    (''pictocode'', JArr [JInt 4])])])))
   = [\<lparr>topic = ''meteoblue/forecast_day_0_temp_max/state'', payload = ''10'', retain = False\<rparr>,
      \<lparr>topic = ''meteoblue/forecast_day_1_temp_max/state'', payload = ''11.5'', retain = False\<rparr>,
      \<lparr>topic = ''meteoblue/forecast_day_2_temp_max/state'', payload = ''12'', retain = False\<rparr>]"
  using forecast_three_days [of
      "[(''data_day'', JObj [(''time'', JArr [JStr ''a'', JStr ''b'', JStr ''c'']),
                             (''temperature_max'', JArr [JInt 10, JFloat ''11.5'', JInt 12]),
                             (''pictocode'', JArr [JInt 4])])]"
      "[(''time'', JArr [JStr ''a'', JStr ''b'', JStr ''c'']),
        (''temperature_max'', JArr [JInt 10, JFloat ''11.5'', JInt 12]),
        (''pictocode'', JArr [JInt 4])]"
      "[JStr ''a'', JStr ''b'', JStr ''c'']" "[JInt 10, JFloat ''11.5'', JInt 12]" example_lib]
  by (simp add: array_or_absent_def publish_state_def str_int_def digits.simps digit_char_def)

text \<open>
  C5. The entity id of a name is the lower-cased name with each space replaced by an
  underscore: for an ASCII name every capital \<^verbatim>\<open>A\<close> to \<^verbatim>\<open>Z\<close> (codes 65 to 90) becomes
  the small letter 32 codes above, every space an underscore, and nothing else changes
  (\<^verbatim>\<open>Wind Speed\<close> gives \<^verbatim>\<open>wind_speed\<close>); for any other name the library's
  \<^verbatim>\<open>str.lower\<close> is applied and then the spaces are replaced. \<open>publish_discovery\<close>
  publishes, with the retain flag, the serialised discovery dictionary on
  \<^verbatim>\<open>homeassistant/sensor/meteoblue/{entity_id}/config\<close>; the dictionary's
  \<^verbatim>\<open>state_topic\<close> is \<^verbatim>\<open>meteoblue/{entity_id}/state\<close>. \<open>publish_state\<close> publishes the
  string form of the value on \<^verbatim>\<open>meteoblue/{entity_id}/state\<close> without the retain flag.
\<close>

theorem topics_and_flags:
  "((\<forall>c \<in> set name. (of_char c :: nat) < 128) \<longrightarrow>
      entity_id_of L name
        = map (\<lambda>c. if c = CHR '' '' then CHR ''_''
                    else if 65 \<le> (of_char c :: nat) \<and> (of_char c :: nat) \<le> 90
                         then char_of ((of_char c :: nat) + 32) else c) name)
   \<and> (\<not> (\<forall>c \<in> set name. (of_char c :: nat) < 128) \<longrightarrow>
      entity_id_of L name
        = map (\<lambda>c. if c = CHR '' '' then CHR ''_'' else c) (unicode_lower L name))
   \<and> CHR '' '' \<notin> set (entity_id_of L name)
   \<and> entity_id_of L ''Wind Speed'' = ''wind_speed''
   \<and> entity_id_of L ''ABCDEFGHIJKLMNOPQRSTUVWXYZ'' = ''abcdefghijklmnopqrstuvwxyz''
   \<and> topic (publish_discovery L sensor_type name unit device_class state_class icon)
       = ''homeassistant/sensor/meteoblue/'' @ entity_id_of L name @ ''/config''
   \<and> retain (publish_discovery L sensor_type name unit device_class state_class icon)
   \<and> payload (publish_discovery L sensor_type name unit device_class state_class icon)
       = json_dumps L (JObj (discovery_config L name unit device_class state_class icon))
   \<and> map_of (discovery_config L name unit device_class state_class icon) ''state_topic''
       = Some (JStr (''meteoblue/'' @ entity_id_of L name @ ''/state''))
   \<and> publish_state L entity_id v
       = \<lparr>topic = ''meteoblue/'' @ entity_id @ ''/state'', payload = py_str L v, retain = False\<rparr>"
proof -
  have c: "entity_id_of L ''Wind Speed'' = ''wind_speed''"
    by (simp add: entity_id_of_def lower_def is_ascii_def lower_char_def replace_space_def)
  have c': "entity_id_of L ''ABCDEFGHIJKLMNOPQRSTUVWXYZ'' = ''abcdefghijklmnopqrstuvwxyz''"
    by (simp add: entity_id_of_def lower_def is_ascii_def lower_char_def replace_space_def)
  have d: "map_of (discovery_config L name unit device_class state_class icon) ''state_topic''
       = Some (JStr (''meteoblue/'' @ entity_id_of L name @ ''/state''))"
    by (simp add: discovery_config_def Let_def)
  have t: "topic (publish_discovery L sensor_type name unit device_class state_class icon)
       = ''homeassistant/sensor/meteoblue/'' @ entity_id_of L name @ ''/config''"
    and r: "retain (publish_discovery L sensor_type name unit device_class state_class icon)"
    and p: "payload (publish_discovery L sensor_type name unit device_class state_class icon)
       = json_dumps L (JObj (discovery_config L name unit device_class state_class icon))"
    by (simp_all add: publish_discovery_def Let_def)
  have s: "publish_state L entity_id v
       = \<lparr>topic = ''meteoblue/'' @ entity_id @ ''/state'', payload = py_str L v, retain = False\<rparr>"
    by (simp add: publish_state_def)
  show ?thesis
    using entity_id_ascii [of name L] entity_id_other [of name L] entity_id_no_space [of L name]
      c c' d t r p s
    by blast
qed

theorem topics_and_flags_witness:
  "entity_id_of example_lib ''Wind Speed''
     = map (\<lambda>c. if c = CHR '' '' then CHR ''_''
                 else if 65 \<le> (of_char c :: nat) \<and> (of_char c :: nat) \<le> 90
                      then char_of ((of_char c :: nat) + 32) else c) ''Wind Speed''
   \<and> entity_id_of example_lib ''Wind Speed'' = ''wind_speed''
   \<and> entity_id_of example_lib
        [CHR 0xC3, CHR 0x89, CHR ''t'', CHR 0xC3, CHR 0xA9, CHR '' '', CHR ''M'', CHR ''a'', CHR ''x'']
     = [CHR 0xC3, CHR 0xA9, CHR ''t'', CHR 0xC3, CHR 0xA9, CHR ''_'', CHR ''m'', CHR ''a'', CHR ''x'']
   \<and> topic (publish_discovery example_lib ''sensor'' ''Wind Speed'' (Some ''m/s'') None
            (Some ''measurement'') (Some ''mdi:weather-windy''))
     = ''homeassistant/sensor/meteoblue/wind_speed/config''
   \<and> map_of (discovery_config example_lib ''Wind Speed'' (Some ''m/s'') None (Some ''measurement'')
               (Some ''mdi:weather-windy'')) ''state_topic''
     = Some (JStr ''meteoblue/wind_speed/state'')
   \<and> publish_state example_lib ''wind_speed'' (JFloat ''3.4'')
     = \<lparr>topic = ''meteoblue/wind_speed/state'', payload = ''3.4'', retain = False\<rparr>"
proof -
  let ?ete = "[CHR 0xC3, CHR 0x89, CHR ''t'', CHR 0xC3, CHR 0xA9, CHR '' '', CHR ''M'', CHR ''a'', CHR ''x'']"
  have ascii: "\<forall>c \<in> set ''Wind Speed''. (of_char c :: nat) < 128"
    by simp
  have other: "\<not> (\<forall>c \<in> set ?ete. (of_char c :: nat) < 128)"
    by simp
  have low: "unicode_lower example_lib ?ete
     = [CHR 0xC3, CHR 0xA9, CHR ''t'', CHR 0xC3, CHR 0xA9, CHR '' '', CHR ''m'', CHR ''a'', CHR ''x'']"
    by code_simp
  note w = topics_and_flags [of "''Wind Speed''" example_lib "''sensor''" "Some ''m/s''" None
      "Some ''measurement''" "Some ''mdi:weather-windy''" "''wind_speed''" "JFloat ''3.4''"]
  note e = topics_and_flags [of ?ete example_lib]
  from w ascii have 1: "entity_id_of example_lib ''Wind Speed''
     = map (\<lambda>c. if c = CHR '' '' then CHR ''_''
                 else if 65 \<le> (of_char c :: nat) \<and> (of_char c :: nat) \<le> 90
                      then char_of ((of_char c :: nat) + 32) else c) ''Wind Speed''"
    by blast
  from w have 2: "entity_id_of example_lib ''Wind Speed'' = ''wind_speed''"
    by blast
  from e other have "entity_id_of example_lib ?ete
     = map (\<lambda>c. if c = CHR '' '' then CHR ''_'' else c) (unicode_lower example_lib ?ete)"
    by blast
  then have 3: "entity_id_of example_lib ?ete
     = [CHR 0xC3, CHR 0xA9, CHR ''t'', CHR 0xC3, CHR 0xA9, CHR ''_'', CHR ''m'', CHR ''a'', CHR ''x'']"
    unfolding low by simp
  from w have "topic (publish_discovery example_lib ''sensor'' ''Wind Speed'' (Some ''m/s'') None
            (Some ''measurement'') (Some ''mdi:weather-windy''))
     = ''homeassistant/sensor/meteoblue/'' @ entity_id_of example_lib ''Wind Speed'' @ ''/config''"
    by blast
  then have 4: "topic (publish_discovery example_lib ''sensor'' ''Wind Speed'' (Some ''m/s'') None
            (Some ''measurement'') (Some ''mdi:weather-windy''))
     = ''homeassistant/sensor/meteoblue/wind_speed/config''"
    unfolding 2 by simp
  from w have "map_of (discovery_config example_lib ''Wind Speed'' (Some ''m/s'') None (Some ''measurement'')
               (Some ''mdi:weather-windy'')) ''state_topic''
     = Some (JStr (''meteoblue/'' @ entity_id_of example_lib ''Wind Speed'' @ ''/state''))"
    by blast
  then have 5: "map_of (discovery_config example_lib ''Wind Speed'' (Some ''m/s'') None (Some ''measurement'')
               (Some ''mdi:weather-windy'')) ''state_topic''
     = Some (JStr ''meteoblue/wind_speed/state'')"
    unfolding 2 by simp
  from w have "publish_state example_lib ''wind_speed'' (JFloat ''3.4'')
     = \<lparr>topic = ''meteoblue/'' @ ''wind_speed'' @ ''/state'', payload = py_str example_lib (JFloat ''3.4''),
        retain = False\<rparr>"
    by blast
  then have 6: "publish_state example_lib ''wind_speed'' (JFloat ''3.4'')
     = \<lparr>topic = ''meteoblue/wind_speed/state'', payload = ''3.4'', retain = False\<rparr>"
    by simp
  from 1 2 3 4 5 6 show ?thesis by blast
qed



text \<open>
  C7. Every message that \<open>publish_sunmoon\<close> publishes, on any snapshot, is the state
  message of one of the five sun and moon entities carrying the element of index 0 of
  the daily field of that entity; and the topics of its messages form a subsequence of
  the five state topics, so that each entity gets at most one message and nothing of
  index 1 or beyond is published.
\<close>

theorem sunmoon_first_element_only:
  "(\<forall>m \<in> set (fst (publish_sunmoon L data)).
      \<exists>ke \<in> set sunmoon_fields. \<exists>sm v x.
        py_get data ''data_day'' (JObj []) = Inr sm \<and> py_key sm (fst ke) = Inr v \<and> py_item v 0 = Inr x
        \<and> m = publish_state L (snd ke) x)
   \<and> subseq (map topic (fst (publish_sunmoon L data))) (map (\<lambda>ke. state_topic (snd ke)) sunmoon_fields)"
proof -
  from publish_sunmoon_cases [of L data] show ?thesis
  proof (elim disjE exE conjE)
    assume "fst (publish_sunmoon L data) = []"
    then show ?thesis by simp
  next
    fix sm
    assume g: "py_get data ''data_day'' (JObj []) = Inr sm"
      and e: "publish_sunmoon L data = sunmoon_steps L sm"
    have "\<forall>m \<in> set (fst (sunmoon_steps L sm)).
      \<exists>ke \<in> set sunmoon_fields. \<exists>sm' v x.
        Inr sm = Inr sm' \<and> py_key sm' (fst ke) = Inr v \<and> py_item v 0 = Inr x
        \<and> m = publish_state L (snd ke) x"
      using sunmoon_steps_set [of _ L sm] by blast
    then show ?thesis
      unfolding e g using sunmoon_steps_topics [of L sm] by blast
  qed
qed

theorem sunmoon_first_element_only_witness:
  "publish_sunmoon example_lib
     (JObj [(''data_day'', JObj [(''time'', JArr [JStr ''a'', JStr ''b'']),
                                 (''sunrise'', JArr [JStr ''06:00'', JStr ''06:01'']),
                                 (''moonphasename'', JArr [JStr ''full'', JStr ''waning''])])])
     = ([\<lparr>topic = ''meteoblue/sunrise/state'', payload = ''06:00'', retain = False\<rparr>,
         \<lparr>topic = ''meteoblue/moon_phase/state'', payload = ''full'', retain = False\<rparr>], None)
   \<and> (\<exists>ke \<in> set sunmoon_fields. \<exists>sm v x.
          py_get (JObj [(''data_day'', JObj [(''time'', JArr [JStr ''a'', JStr ''b'']),
                                      (''sunrise'', JArr [JStr ''06:00'', JStr ''06:01'']),
                                      (''moonphasename'', JArr [JStr ''full'', JStr ''waning''])])])
             ''data_day'' (JObj []) = Inr sm
          \<and> py_key sm (fst ke) = Inr v \<and> py_item v 0 = Inr x
          \<and> \<lparr>topic = ''meteoblue/moon_phase/state'', payload = ''full'', retain = False\<rparr>
              = publish_state example_lib (snd ke) x)"
proof -
  have out: "publish_sunmoon example_lib
     (JObj [(''data_day'', JObj [(''time'', JArr [JStr ''a'', JStr ''b'']),
                                 (''sunrise'', JArr [JStr ''06:00'', JStr ''06:01'']),
                                 (''moonphasename'', JArr [JStr ''full'', JStr ''waning''])])])
     = ([\<lparr>topic = ''meteoblue/sunrise/state'', payload = ''06:00'', retain = False\<rparr>,
         \<lparr>topic = ''meteoblue/moon_phase/state'', payload = ''full'', retain = False\<rparr>], None)"
    by (simp add: publish_sunmoon_def dget_def sunmoon_field_def publish_state_def)
  then have "\<lparr>topic = ''meteoblue/moon_phase/state'', payload = ''full'', retain = False\<rparr>
      \<in> set (fst (publish_sunmoon example_lib
     (JObj [(''data_day'', JObj [(''time'', JArr [JStr ''a'', JStr ''b'']),
                                 (''sunrise'', JArr [JStr ''06:00'', JStr ''06:01'']),
                                 (''moonphasename'', JArr [JStr ''full'', JStr ''waning''])])])))"
    by simp
  with out show ?thesis
    using sunmoon_first_element_only [of example_lib
      "JObj [(''data_day'', JObj [(''time'', JArr [JStr ''a'', JStr ''b'']),
                                  (''sunrise'', JArr [JStr ''06:00'', JStr ''06:01'']),
                                  (''moonphasename'', JArr [JStr ''full'', JStr ''waning''])])]"]
    by blast
qed

text \<open>
  C8, in the form the code satisfies. For a snapshot whose current-conditions section is an object \<open>cur\<close>
  (or absent, which is the empty object), \<open>publish_current_weather\<close> raises nothing and
  publishes, in this order, one state message for each of the keys \<^verbatim>\<open>temperature\<close>,
  \<^verbatim>\<open>windspeed\<close>, \<^verbatim>\<open>winddirection\<close>, \<^verbatim>\<open>relativehumidity\<close>, \<^verbatim>\<open>pictocode\<close>,
  \<^verbatim>\<open>isdaylight\<close> that the section has, carrying the value of the key, on the entities
  \<^verbatim>\<open>temperature\<close>, \<^verbatim>\<open>wind_speed\<close>, \<^verbatim>\<open>wind_direction\<close>, \<^verbatim>\<open>humidity\<close>, \<^verbatim>\<open>pictocode\<close>,
  \<^verbatim>\<open>is_daylight\<close>; a key that is absent gives no message.
\<close>

theorem current_weather_fields:
  assumes "dget d ''data_current'' (JObj []) = JObj cur"
  shows "publish_current_weather L (JObj d) = (concat (map (field_state L cur) current_fields), None)"
  using assms by (rule publish_current_weather_obj)

theorem current_weather_fields_witness:
  "publish_current_weather example_lib
     (JObj [(''data_current'', JObj [(''relativehumidity'', JInt 50), (''temperature'', JFloat ''3.5'')])])
   = ([\<lparr>topic = ''meteoblue/temperature/state'', payload = ''3.5'', retain = False\<rparr>,
       \<lparr>topic = ''meteoblue/humidity/state'', payload = ''50'', retain = False\<rparr>], None)"
  using current_weather_fields [of
      "[(''data_current'', JObj [(''relativehumidity'', JInt 50), (''temperature'', JFloat ''3.5'')])]"
      "[(''relativehumidity'', JInt 50), (''temperature'', JFloat ''3.5'')]" example_lib]
  by (simp add: dget_def current_fields_def field_state_def publish_state_def
      str_int_def digits.simps digit_char_def)

text \<open>
  C8 as stated names a field \<^verbatim>\<open>humidity\<close>: a section that has it gives no message.
\<close>

theorem current_weather_humidity_counterexample:
  "map_of [(''humidity'', JInt 50)] ''humidity'' = Some (JInt 50)
   \<and> publish_current_weather example_lib (JObj [(''data_current'', JObj [(''humidity'', JInt 50)])])
     = ([], None)"
  by (simp add: publish_current_weather_obj [where cur = "[(''humidity'', JInt 50)]"]
      dget_def current_fields_def field_state_def)

text \<open>
  C9, in the form the code satisfies. Where a successful answer of the endpoint has the documented shape,
  \<open>get_mqtt_config\<close> raises exactly when the credential is unset or empty, or the call
  does not return status 200; otherwise it returns the host (\<^verbatim>\<open>core-mosquitto\<close> when
  absent), the port (1883 when absent), and the username and password as given
  (\<^verbatim>\<open>None\<close> when absent).
\<close>

theorem get_mqtt_config_contract:
  assumes "broker_response net t mqtt_data"
  shows "(\<exists>e. snd (get_mqtt_config None net) = Inl e)
     \<and> ((\<exists>e. snd (get_mqtt_config (Some t) net) = Inl e)
            \<longleftrightarrow> t = [] \<or> \<not> call_succeeds net (mqtt_request t))
     \<and> (t \<noteq> [] \<and> call_succeeds net (mqtt_request t) \<longrightarrow>
          snd (get_mqtt_config (Some t) net)
            = Inr [(''host'', dget mqtt_data ''host'' (JStr ''core-mosquitto'')),
                   (''port'', dget mqtt_data ''port'' (JInt 1883)),
                   (''username'', dget mqtt_data ''username'' JNull),
                   (''password'', dget mqtt_data ''password'' JNull)])"
proof -
  have none: "\<exists>e. snd (get_mqtt_config None net) = Inl e"
    by (simp add: get_mqtt_config_no_credential no_credential_def)
  show ?thesis
  proof (cases "t = []")
    case True
    then show ?thesis
      using none by (simp add: get_mqtt_config_no_credential no_credential_def)
  next
    case nonempty: False
    show ?thesis
    proof (cases "call_succeeds net (mqtt_request t)")
      case False
      from get_mqtt_config_call_fails [OF nonempty this] show ?thesis
        using none False by auto
    next
      case True
      then obtain resp where r: "net (mqtt_request t) = Response resp" "status resp = 200"
        by (auto simp: call_succeeds_def split: http_result.splits)
      from assms have "case body_json resp of
                   Some (JObj data) \<Rightarrow> dget data ''data'' (JObj []) = JObj mqtt_data
                 | _ \<Rightarrow> False"
        using r by (simp add: broker_response_def)
      then obtain data where d: "body_json resp = Some (JObj data)" "dget data ''data'' (JObj []) = JObj mqtt_data"
        by (cases "body_json resp") (auto split: json.splits)
      from get_mqtt_config_settings [of t net resp data mqtt_data] nonempty r d
      have "snd (get_mqtt_config (Some t) net)
            = Inr [(''host'', dget mqtt_data ''host'' (JStr ''core-mosquitto'')),
                   (''port'', dget mqtt_data ''port'' (JInt 1883)),
                   (''username'', dget mqtt_data ''username'' JNull),
                   (''password'', dget mqtt_data ''password'' JNull)]"
        by simp
      then show ?thesis
        using none True nonempty by simp
    qed
  qed
qed

theorem get_mqtt_config_contract_witness:
  "broker_response example_net ''token'' [(''username'', JStr ''u'')]
   \<and> call_succeeds example_net (mqtt_request ''token'')
   \<and> snd (get_mqtt_config (Some ''token'') example_net)
       = Inr [(''host'', JStr ''core-mosquitto''), (''port'', JInt 1883),
              (''username'', JStr ''u''), (''password'', JNull)]"
proof -
  have b: "broker_response example_net ''token'' [(''username'', JStr ''u'')]"
    by (simp add: broker_response_def mqtt_request_def example_net_def SUPERVISOR_API_def dget_def)
  have s: "call_succeeds example_net (mqtt_request ''token'')"
    by (simp add: call_succeeds_def mqtt_request_def example_net_def SUPERVISOR_API_def)
  from get_mqtt_config_contract [OF b] s b show ?thesis
    by (simp add: dget_def)
qed

text \<open>
  C9 as stated lets the function raise only when the credential is absent or the call
  fails: with the variable set to the empty string, against an endpoint that answers
  with success, it raises.
\<close>

theorem get_mqtt_config_empty_token_counterexample:
  "Some [] \<noteq> (None :: string option)
   \<and> call_succeeds example_net (mqtt_request [])
   \<and> snd (get_mqtt_config (Some []) example_net) = Inl (ValueError ''SUPERVISOR_TOKEN not found'')"
  by (simp add: get_mqtt_config_def call_succeeds_def mqtt_request_def example_net_def SUPERVISOR_API_def)

text \<open>
  C10. For a snapshot whose daily section is an object without the key \<^verbatim>\<open>time\<close>, or
  with an empty \<^verbatim>\<open>time\<close> array, \<open>publish_forecast\<close> and \<open>publish_sunmoon\<close> publish
  nothing (and raise nothing), whatever the other fields of the section hold.
\<close>

theorem no_time_no_state:
  assumes "map_of d ''data_day'' = Some (JObj day)"
    and "map_of day ''time'' = None \<or> map_of day ''time'' = Some (JArr [])"
  shows "publish_forecast L (JObj d) = ([], None) \<and> publish_sunmoon L (JObj d) = ([], None)"
  using assms by (auto simp: publish_forecast_def publish_sunmoon_def dget_def)

theorem no_time_no_state_witness:
  "publish_forecast example_lib
      (JObj [(''data_day'', JObj [(''sunrise'', JArr [JStr ''06:00'']), (''temperature_max'', JArr [JInt 10])])])
     = ([], None)
   \<and> publish_sunmoon example_lib
      (JObj [(''data_day'', JObj [(''sunrise'', JArr [JStr ''06:00'']), (''temperature_max'', JArr [JInt 10])])])
     = ([], None)
   \<and> publish_sunmoon example_lib
      (JObj [(''data_day'', JObj [(''time'', JArr []), (''sunrise'', JArr [JStr ''06:00''])])])
     = ([], None)"
  using no_time_no_state [of
      "[(''data_day'', JObj [(''sunrise'', JArr [JStr ''06:00'']), (''temperature_max'', JArr [JInt 10])])]"
      "[(''sunrise'', JArr [JStr ''06:00'']), (''temperature_max'', JArr [JInt 10])]" example_lib]
    no_time_no_state [of
      "[(''data_day'', JObj [(''time'', JArr []), (''sunrise'', JArr [JStr ''06:00''])])]"
      "[(''time'', JArr []), (''sunrise'', JArr [JStr ''06:00''])]" example_lib]
  by simp

end
